theory Spec2Isabelle
  imports Complex_Main
begin

section \<open>Python values, string formatting and string parsing\<close>

text \<open>
  The drivers in \<^verbatim>\<open>pylablib/devices/Lakeshore/base.py\<close> translate method calls into ASCII
  commands.  Values travelling through them are dynamically typed; a finite Python float is
  represented by the rational number it denotes (no arithmetic is done on them, they are only
  compared with zero, formatted and handed on).
\<close>

datatype pyval =
    VNone
  | VBool bool
  | VInt int
  | VFloat rat
  | VStr string
  | VList "pyval list"

datatype error =
    BackendError string
  | BackendOpenError error
  | InvalidParameter string
  | ValueError
  | IndexError
  | TypeError
  | AttributeError

text \<open>\<^verbatim>\<open>"{}".format(n)\<close> for an integer \<open>n\<close>.\<close>

definition digit_char :: "nat \<Rightarrow> char" where
  "digit_char d = ''0123456789'' ! d"

fun str_nat :: "nat \<Rightarrow> string" where
  "str_nat n = (if n < 10 then [digit_char n] else str_nat (n div 10) @ [digit_char (n mod 10)])"

declare str_nat.simps [simp del]

definition py_str :: "int \<Rightarrow> string" where
  "py_str i = (if i < 0 then CHR ''-'' # str_nat (nat (- i)) else str_nat (nat i))"

text \<open>\<^verbatim>\<open>"{:2d}".format(n)\<close>: right-aligned in a field of width at least two.\<close>

definition fmt_2d :: "int \<Rightarrow> string" where
  "fmt_2d i = replicate (2 - length (py_str i)) CHR '' '' @ py_str i"

text \<open>
  \<^verbatim>\<open>"{:f}".format(x)\<close>: six digits after the point, the exact value rounded half-to-even,
  the sign kept even when the digits round to zero.
\<close>

definition round_half_even :: "rat \<Rightarrow> int" where
  "round_half_even q =
     (let f = \<lfloor>q\<rfloor>; d = q - of_int f in
      if d < 1 / 2 then f else if 1 / 2 < d then f + 1 else if even f then f else f + 1)"

definition fmt_f :: "rat \<Rightarrow> string" where
  "fmt_f r =
     (let n = nat (round_half_even (\<bar>r\<bar> * 1000000)); fp = str_nat (n mod 1000000) in
      (if r < 0 then ''-'' else '''') @ str_nat (n div 1000000) @ ''.''
        @ replicate (6 - length fp) CHR ''0'' @ fp)"

text \<open>\<^verbatim>\<open>s.split(",")\<close> and \<^verbatim>\<open>s.strip()\<close> on ASCII text.\<close>

fun py_split :: "char \<Rightarrow> string \<Rightarrow> string list" where
  "py_split sep [] = [[]]"
| "py_split sep (c # cs) =
     (if c = sep then [] # py_split sep cs
      else (case py_split sep cs of [] \<Rightarrow> [[c]] | x # xs \<Rightarrow> (c # x) # xs))"

definition is_space :: "char \<Rightarrow> bool" where
  "is_space c \<longleftrightarrow>
     c \<in> set [CHR '' '', CHR 0x09, CHR 0x0A, CHR 0x0B, CHR 0x0C, CHR 0x0D,
               CHR 0x1C, CHR 0x1D, CHR 0x1E, CHR 0x1F]"

definition strip :: "string \<Rightarrow> string" where
  "strip s = rev (dropWhile is_space (rev (dropWhile is_space s)))"

text \<open>\<^verbatim>\<open>xs[i]\<close> for a non-negative constant index: \<^verbatim>\<open>IndexError\<close> out of range.\<close>

definition py_index :: "'a list \<Rightarrow> nat \<Rightarrow> error + 'a" where
  "py_index xs i = (if i < length xs then Inr (xs ! i) else Inl IndexError)"

text \<open>
  \<^verbatim>\<open>float(s)\<close> is the interpreter's parser; it is a parameter \<open>pyfloat\<close> of the functions
  that call it, \<open>None\<close> standing for \<^verbatim>\<open>ValueError\<close>.
\<close>

definition py_float :: "(string \<Rightarrow> rat option) \<Rightarrow> string \<Rightarrow> error + rat" where
  "py_float pyfloat s = (case pyfloat s of None \<Rightarrow> Inl ValueError | Some x \<Rightarrow> Inr x)"

text \<open>\<^verbatim>\<open>a in b\<close> for two strings: substring containment.\<close>

fun py_in_str :: "string \<Rightarrow> string \<Rightarrow> bool" where
  "py_in_str sub [] = (sub = [])"
| "py_in_str sub (c # cs) = (take (length sub) (c # cs) = sub \<or> py_in_str sub cs)"

section \<open>The instrument transport\<close>

text \<open>
  \<^verbatim>\<open>SCPI.SCPIDevice\<close> and the serial backend behind it are collaborators of the drivers:
  they are a parameter \<open>B\<close> of every method, a record of the primitives the drivers call, acting
  on a device state \<open>'d\<close>.  A connection carries, besides the device state, the list of
  primitive calls made so far, so that what a method sends can be stated.
\<close>

datatype data_type = Single string | Multi "string list"

datatype call =
    COpen "pyval list"
  | CWrite string pyval
  | CAsk string data_type
  | CWaitDev
  | CGetId rat
  | CClose

record 'd backend =
  b_open :: "pyval list \<Rightarrow> 'd \<Rightarrow> error option \<times> 'd"
  b_write :: "string \<Rightarrow> pyval \<Rightarrow> 'd \<Rightarrow> error option \<times> 'd"
  b_ask :: "string \<Rightarrow> data_type \<Rightarrow> 'd \<Rightarrow> (error + pyval) \<times> 'd"
  b_wait_dev :: "'d \<Rightarrow> error option \<times> 'd"
  b_get_id :: "rat \<Rightarrow> 'd \<Rightarrow> (error + pyval) \<times> 'd"
  b_close :: "'d \<Rightarrow> 'd"

record 'd conn =
  sent :: "call list"
  is_open :: bool
  dev :: 'd

type_synonym ('a, 'd) io = "'d conn \<Rightarrow> (error + 'a) \<times> 'd conn"

definition ret :: "'a \<Rightarrow> ('a, 'd) io" where
  "ret x c = (Inr x, c)"

definition lift :: "error + 'a \<Rightarrow> ('a, 'd) io" where
  "lift r c = (r, c)"

definition io_bind :: "('a, 'd) io \<Rightarrow> ('a \<Rightarrow> ('b, 'd) io) \<Rightarrow> ('b, 'd) io" where
  "io_bind m f c = (case m c of (Inl e, c') \<Rightarrow> (Inl e, c') | (Inr x, c') \<Rightarrow> f x c')"

definition status :: "error option \<Rightarrow> error + unit" where
  "status r = (case r of None \<Rightarrow> Inr () | Some e \<Rightarrow> Inl e)"

definition scpi_write :: "'d backend \<Rightarrow> string \<Rightarrow> pyval \<Rightarrow> (unit, 'd) io" where
  "scpi_write B msg arg c =
     (case b_write B msg arg (dev c) of
        (r, d) \<Rightarrow> (status r, c\<lparr>sent := sent c @ [CWrite msg arg], dev := d\<rparr>))"

definition ask :: "'d backend \<Rightarrow> string \<Rightarrow> data_type \<Rightarrow> (pyval, 'd) io" where
  "ask B msg ty c =
     (case b_ask B msg ty (dev c) of
        (r, d) \<Rightarrow> (r, c\<lparr>sent := sent c @ [CAsk msg ty], dev := d\<rparr>))"

definition wait_dev :: "'d backend \<Rightarrow> (unit, 'd) io" where
  "wait_dev B c =
     (case b_wait_dev B (dev c) of
        (r, d) \<Rightarrow> (status r, c\<lparr>sent := sent c @ [CWaitDev], dev := d\<rparr>))"

definition get_id :: "'d backend \<Rightarrow> rat \<Rightarrow> (pyval, 'd) io" where
  "get_id B timeout c =
     (case b_get_id B timeout (dev c) of
        (r, d) \<Rightarrow> (r, c\<lparr>sent := sent c @ [CGetId timeout], dev := d\<rparr>))"

definition close :: "'d backend \<Rightarrow> 'd conn \<Rightarrow> 'd conn" where
  "close B c = c\<lparr>sent := sent c @ [CClose], is_open := False, dev := b_close B (dev c)\<rparr>"

text \<open>
  \<^verbatim>\<open>SCPIDevice.__init__(self, conn, ...)\<close>: the connection is opened with the given
  parameters; a failure to open leaves no open connection.
\<close>

definition SCPIDevice_init :: "'d backend \<Rightarrow> pyval list \<Rightarrow> 'd \<Rightarrow> (error + unit) \<times> 'd conn" where
  "SCPIDevice_init B params d =
     (case b_open B params d of
        (r, d') \<Rightarrow> (status r, \<lparr>sent = [COpen params], is_open = (r = None), dev = d'\<rparr>))"

text \<open>\<^verbatim>\<open>s.split(",")\<close> needs a string: anything else has no such method.\<close>

definition as_str :: "pyval \<Rightarrow> error + string" where
  "as_str v = (case v of VStr s \<Rightarrow> Inr s | _ \<Rightarrow> Inl AttributeError)"

section \<open>Parameter checks of the shared library\<close>

text \<open>
  Modelled from the spec: \<^verbatim>\<open>interface.RangeParameterClass\<close>, \<^verbatim>\<open>interface.EnumParameterClass\<close>
  and the decorator \<^verbatim>\<open>interface.use_parameters\<close> are not among the sources at hand.  The spec
  describes them as range and enum checks raising an invalid-parameter error.  As the call
  sites use them, the decorator passes every argument whose name has a \<^verbatim>\<open>_p_<name>\<close> attribute
  through that check before the body runs, leaves \<^verbatim>\<open>None\<close> as it is, and converts a
  returned value only where \<^verbatim>\<open>_returns\<close> names a parameter class for it.
\<close>

definition range_i :: "string \<Rightarrow> int \<Rightarrow> int \<Rightarrow> int \<Rightarrow> error + int" where
  "range_i name minval maxval v =
     (if minval \<le> v \<and> v \<le> maxval then Inr v else Inl (InvalidParameter name))"

definition enum_i :: "string \<Rightarrow> (string \<times> int) list \<Rightarrow> string \<Rightarrow> error + int" where
  "enum_i name vmap alias =
     (case map_of vmap alias of None \<Rightarrow> Inl (InvalidParameter name) | Some v \<Rightarrow> Inr v)"

definition enum_r :: "(string \<times> int) list \<Rightarrow> pyval \<Rightarrow> pyval" where
  "enum_r vmap v =
     (case v of
        VInt n \<Rightarrow> (case find (\<lambda>kv. snd kv = n) vmap of None \<Rightarrow> VInt n | Some kv \<Rightarrow> VStr (fst kv))
      | _ \<Rightarrow> v)"

fun opt_i :: "('a \<Rightarrow> error + 'b) \<Rightarrow> 'a option \<Rightarrow> error + 'b option" where
  "opt_i p None = Inr None"
| "opt_i p (Some x) = (case p x of Inl e \<Rightarrow> Inl e | Inr y \<Rightarrow> Inr (Some y))"

text \<open>
  Modelled from the spec: \<^verbatim>\<open>funcargparse.check_parameter_range(par_val, par_name, par_set)\<close>
  is not among the sources at hand either.  It is the generic range check of the library: it
  raises the invalid-parameter error when \<^verbatim>\<open>par_val not in par_set\<close>.  The one call site
  hands it the string \<^verbatim>\<open>"IV"\<close> as \<^verbatim>\<open>par_set\<close>, and membership of a string in a string is
  substring containment.
\<close>

definition check_parameter_range :: "string \<Rightarrow> string \<Rightarrow> string \<Rightarrow> error + unit" where
  "check_parameter_range par_val par_name par_set =
     (if py_in_str par_val par_set then Inr () else Inl (InvalidParameter par_name))"

text \<open>
  Modelled from the spec: \<^verbatim>\<open>SerialDeviceBackend.combine_conn(conn, defaults)\<close>, absent as
  well: the serial parameters given override the defaults (port, baud rate, data bits, parity,
  stop bits), position by position.
\<close>

definition combine_conn :: "pyval list \<Rightarrow> pyval list \<Rightarrow> pyval list" where
  "combine_conn conn defaults = conn @ drop (length conn) defaults"

section \<open>Lakeshore 218\<close>

definition p_channel :: "int \<Rightarrow> error + int" where
  "p_channel = range_i ''channel'' 1 8"

definition p_group :: "string \<Rightarrow> error + string" where
  "p_group g = (if g \<in> set [''A'', ''B''] then Inr g else Inl (InvalidParameter ''group''))"

definition sensor_type_map :: "(string \<times> int) list" where
  "sensor_type_map =
     [(''diode_2.5'', 0), (''diode_7.5'', 1), (''plat_250'', 2), (''plat_500'', 3),
      (''plat_5k'', 4), (''cernox'', 5)]"

definition p_sensor_type :: "string \<Rightarrow> error + int" where
  "p_sensor_type = enum_i ''sensor_type'' sensor_type_map"

definition p_output :: "int \<Rightarrow> error + int" where
  "p_output = range_i ''output'' 1 2"

definition output_mode_map :: "(string \<times> int) list" where
  "output_mode_map = [(''off'', 0), (''input'', 1), (''manual'', 2)]"

definition p_output_mode :: "string \<Rightarrow> error + int" where
  "p_output_mode = enum_i ''output_mode'' output_mode_map"

definition source_map :: "(string \<times> int) list" where
  "source_map = [(''kelvin'', 1), (''celsius'', 2), (''sensor'', 3), (''linear'', 4)]"

definition p_source :: "string \<Rightarrow> error + int" where
  "p_source = enum_i ''source'' source_map"

text \<open>
  \<^verbatim>\<open>Lakeshore218.__init__\<close>.  Registering the settings and status variables sends nothing;
  the identification query runs with a timeout of two seconds, and only a transport error
  (\<^verbatim>\<open>self.instr.Error\<close>) is caught.
\<close>

definition Lakeshore218_init :: "'d backend \<Rightarrow> pyval list \<Rightarrow> 'd \<Rightarrow> (error + unit) \<times> 'd conn" where
  "Lakeshore218_init B conn d =
     (case SCPIDevice_init B
             (combine_conn conn [VStr ''COM1'', VInt 9600, VInt 7, VStr ''E'', VInt 1]) d of
        (Inl e, c) \<Rightarrow> (Inl e, c)
      | (Inr u, c) \<Rightarrow>
          (case get_id B 2 c of
             (Inl (BackendError m), c') \<Rightarrow> (Inl (BackendOpenError (BackendError m)), close B c')
           | (Inl e, c') \<Rightarrow> (Inl e, c')
           | (Inr v, c') \<Rightarrow> (Inr (), c')))"

definition is_enabled :: "'d backend \<Rightarrow> int \<Rightarrow> (pyval, 'd) io" where
  "is_enabled B channel =
     io_bind (lift (p_channel channel)) (\<lambda>channel.
     ask B (''INPUT? '' @ py_str channel) (Single ''bool''))"

definition set_enabled :: "'d backend \<Rightarrow> int \<Rightarrow> bool \<Rightarrow> (pyval, 'd) io" where
  "set_enabled B channel enabled =
     io_bind (lift (p_channel channel)) (\<lambda>channel.
     io_bind (scpi_write B (''INPUT '' @ py_str channel @ '' '' @ py_str (if enabled then 1 else 0)) VNone)
       (\<lambda>u.
     is_enabled B channel))"

definition get_sensor_type :: "'d backend \<Rightarrow> string \<Rightarrow> (pyval, 'd) io" where
  "get_sensor_type B grp =
     io_bind (lift (p_group grp)) (\<lambda>grp.
     ask B (''INTYPE? '' @ grp) (Single ''int''))"

definition set_sensor_type :: "'d backend \<Rightarrow> string \<Rightarrow> string \<Rightarrow> (pyval, 'd) io" where
  "set_sensor_type B grp sensor_type =
     io_bind (lift (p_group grp)) (\<lambda>grp.
     io_bind (lift (p_sensor_type sensor_type)) (\<lambda>sensor_type.
     io_bind (scpi_write B (''INTYPE '' @ grp @ '' '' @ py_str sensor_type) VNone) (\<lambda>u.
     io_bind (wait_dev B) (\<lambda>u.
     get_sensor_type B grp))))"

definition get_all_temperatures :: "'d backend \<Rightarrow> (string \<Rightarrow> rat option) \<Rightarrow> (rat list, 'd) io" where
  "get_all_temperatures B pyfloat =
     io_bind (ask B ''KRDG? 0'' (Single ''string'')) (\<lambda>data.
     io_bind (lift (as_str data)) (\<lambda>data.
     lift (case those (map (\<lambda>x. pyfloat (strip x)) (py_split CHR '','' data)) of
             None \<Rightarrow> Inl ValueError
           | Some ts \<Rightarrow> Inr ts)))"

text \<open>
  \<^verbatim>\<open>TLakeshore218AnalogSettings(*values)\<close>: a named tuple of seven fields, in the order
  bipolar, mode, channel, source, high\_value, low\_value, man\_value; any other number of
  values is a \<^verbatim>\<open>TypeError\<close>.  The tuple is the list of its fields.
\<close>

definition TLakeshore218AnalogSettings :: "pyval \<Rightarrow> error + pyval list" where
  "TLakeshore218AnalogSettings values =
     (case values of
        VList vs \<Rightarrow> (if length vs = 7 then Inr vs else Inl TypeError)
      | _ \<Rightarrow> Inl TypeError)"

text \<open>The body of \<^verbatim>\<open>get_analog_output_settings\<close>, as \<^verbatim>\<open>_call_without_parameters\<close> runs it.\<close>

definition get_analog_output_settings_raw :: "'d backend \<Rightarrow> int \<Rightarrow> (pyval list, 'd) io" where
  "get_analog_output_settings_raw B output =
     io_bind (ask B (''ANALOG? '' @ py_str output)
                (Multi [''bool'', ''int'', ''int'', ''int'', ''float'', ''float'', ''float''])) (\<lambda>values.
     lift (TLakeshore218AnalogSettings values))"

text \<open>\<^verbatim>\<open>_returns=(None,_p_output_mode,None,_p_source,None,None,None)\<close>\<close>

definition analog_returns :: "pyval list \<Rightarrow> pyval list" where
  "analog_returns vs =
     map2 (\<lambda>p v. p v) [id, enum_r output_mode_map, id, enum_r source_map, id, id, id] vs"

definition get_analog_output_settings :: "'d backend \<Rightarrow> int \<Rightarrow> (pyval list, 'd) io" where
  "get_analog_output_settings B output =
     io_bind (lift (p_output output)) (\<lambda>output.
     io_bind (get_analog_output_settings_raw B output) (\<lambda>values.
     ret (analog_returns values)))"

fun opt_val :: "('a \<Rightarrow> pyval) \<Rightarrow> 'a option \<Rightarrow> pyval" where
  "opt_val f None = VNone"
| "opt_val f (Some x) = f x"

definition setup_analog_output ::
  "'d backend \<Rightarrow> int \<Rightarrow> bool option \<Rightarrow> string option \<Rightarrow> int option \<Rightarrow> string option \<Rightarrow>
     rat option \<Rightarrow> rat option \<Rightarrow> rat option \<Rightarrow> (pyval list, 'd) io" where
  "setup_analog_output B output bipolar mode channel source high_value low_value man_value =
     io_bind (lift (p_output output)) (\<lambda>output.
     io_bind (lift (opt_i p_output_mode mode)) (\<lambda>mode.
     io_bind (lift (opt_i p_channel channel)) (\<lambda>channel.
     io_bind (lift (opt_i p_source source)) (\<lambda>source.
     io_bind (get_analog_output_settings_raw B output) (\<lambda>current.
     let value = map (\<lambda>(c, v). if v = VNone then c else v)
                   (zip current
                      [opt_val VBool bipolar, opt_val VInt mode, opt_val VInt channel,
                       opt_val VInt source, opt_val VFloat high_value, opt_val VFloat low_value,
                       opt_val VFloat man_value])
     in
     io_bind (scpi_write B ''ANALOG'' (VList (VInt output # value))) (\<lambda>u.
     get_analog_output_settings B output))))))"

section \<open>Lakeshore 370\<close>

definition Lakeshore370_init :: "'d backend \<Rightarrow> pyval list \<Rightarrow> 'd \<Rightarrow> (error + unit) \<times> 'd conn" where
  "Lakeshore370_init B conn d =
     (case SCPIDevice_init B conn d of
        (Inl e, c) \<Rightarrow> (Inl e, c)
      | (Inr u, c) \<Rightarrow>
          (case get_id B 2 c of
             (Inl (BackendError m), c') \<Rightarrow> (Inl (BackendOpenError (BackendError m)), close B c')
           | (Inl e, c') \<Rightarrow> (Inl e, c')
           | (Inr v, c') \<Rightarrow> (Inr (), c')))"

definition setup_channel ::
  "'d backend \<Rightarrow> int option \<Rightarrow> string \<Rightarrow> int \<Rightarrow> int \<Rightarrow> bool \<Rightarrow> (unit, 'd) io" where
  "setup_channel B channel mode exc_range res_range autorange =
     io_bind (lift (check_parameter_range mode ''mode'' ''IV'')) (\<lambda>u.
     let channel = (case channel of None \<Rightarrow> 0 | Some ch \<Rightarrow> ch);
         mode = (if mode = ''V'' then 0 else 1);
         autorange = (if autorange then 1 else 0)
     in
     scpi_write B (''RDGRNG '' @ fmt_2d channel @ '','' @ py_str mode @ '','' @ fmt_2d exc_range
                    @ '','' @ fmt_2d res_range @ '','' @ py_str autorange @ '',0'') VNone)"

definition setup_heater_openloop :: "'d backend \<Rightarrow> int \<Rightarrow> rat \<Rightarrow> rat \<Rightarrow> (unit, 'd) io" where
  "setup_heater_openloop B heater_range heater_percent heater_res =
     io_bind (scpi_write B ''CMODE 3'' VNone) (\<lambda>u.
     io_bind (scpi_write B (''CSET 1,0,1,25,1,'' @ py_str heater_range @ '','' @ fmt_f heater_res) VNone)
       (\<lambda>u.
     io_bind (scpi_write B (''HTRRNG '' @ py_str heater_range) VNone) (\<lambda>u.
     scpi_write B (''MOUT '' @ fmt_f heater_percent) VNone)))"

definition get_heater_settings_openloop ::
  "'d backend \<Rightarrow> (string \<Rightarrow> rat option) \<Rightarrow> (pyval \<times> pyval \<times> rat, 'd) io" where
  "get_heater_settings_openloop B pyfloat =
     io_bind (ask B ''CSET?'' (Single ''string'')) (\<lambda>reply.
     io_bind (lift (as_str reply)) (\<lambda>reply.
     let cset_reply = map strip (py_split CHR '','' reply) in
     io_bind (ask B ''MOUT?'' (Single ''float'')) (\<lambda>heater_percent.
     io_bind (ask B ''HTRRNG?'' (Single ''int'')) (\<lambda>heater_range.
     io_bind (lift (py_index cset_reply 6)) (\<lambda>field.
     io_bind (lift (py_float pyfloat field)) (\<lambda>heater_res.
     ret (heater_range, heater_percent, heater_res)))))))"

definition get_analog_output_370 :: "'d backend \<Rightarrow> int \<Rightarrow> (pyval, 'd) io" where
  "get_analog_output_370 B channel = ask B (''AOUT? '' @ py_str channel) (Single ''float'')"

definition set_analog_output :: "'d backend \<Rightarrow> int \<Rightarrow> rat \<Rightarrow> (pyval, 'd) io" where
  "set_analog_output B channel val =
     io_bind
       (if val = 0 then scpi_write B (''ANALOG '' @ py_str channel @ '',0,0,1,1,500.,0,0.'') VNone
        else scpi_write B (''ANALOG '' @ py_str channel @ '',0,2,1,1,500.,0,'' @ fmt_f val) VNone)
       (\<lambda>u.
     get_analog_output_370 B channel)"

section \<open>A simulated instrument\<close>

text \<open>
  A register file standing for an instrument that answers \<^verbatim>\<open>NAME? key\<close> with what
  \<^verbatim>\<open>NAME key value\<close> last stored, used to run the drivers on concrete inputs.  Its plain
  decimal reader stands for \<^verbatim>\<open>float\<close> there.
\<close>

definition digit_of :: "char \<Rightarrow> nat option" where
  "digit_of c = map_of (zip ''0123456789'' [0 ..< 10]) c"

definition sim_nat :: "string \<Rightarrow> nat option" where
  "sim_nat s =
     (if s = [] then None
      else map_option (foldl (\<lambda>a d. 10 * a + d) 0) (those (map digit_of s)))"

definition sim_int :: "string \<Rightarrow> int option" where
  "sim_int s =
     (case s of
        [] \<Rightarrow> None
      | c # cs \<Rightarrow> (if c = CHR ''-'' then map_option (\<lambda>n. - int n) (sim_nat cs)
                  else if c = CHR ''+'' then map_option int (sim_nat cs)
                  else map_option int (sim_nat s)))"

definition sim_float :: "string \<Rightarrow> rat option" where
  "sim_float s =
     (case py_split CHR ''.'' s of
        [i] \<Rightarrow> map_option of_int (sim_int i)
      | [i, f] \<Rightarrow>
          (case (sim_int i, sim_nat f) of
             (Some n, Some m) \<Rightarrow>
               Some (if take 1 i = ''-'' then of_int n - of_nat m / 10 ^ length f
                     else of_int n + of_nat m / 10 ^ length f)
           | _ \<Rightarrow> None)
      | _ \<Rightarrow> None)"

type_synonym registers = "(string \<times> pyval) list"

definition sim_write :: "string \<Rightarrow> pyval \<Rightarrow> registers \<Rightarrow> error option \<times> registers" where
  "sim_write msg arg d =
     (case arg of
        VList (VInt k # vs) \<Rightarrow> (None, (msg @ ''? '' @ py_str k, VList vs) # d)
      | _ \<Rightarrow>
          (case py_split CHR '' '' msg of
             [m, v] \<Rightarrow> (None, (m @ ''?'', VStr v) # d)
           | [m, k, v] \<Rightarrow> (None, (m @ ''? '' @ k, VStr v) # d)
           | _ \<Rightarrow> (None, (msg, VNone) # d)))"

definition sim_parse :: "string \<Rightarrow> string \<Rightarrow> error + pyval" where
  "sim_parse t v =
     (if t = ''bool'' then Inr (VBool (v \<noteq> ''0''))
      else if t = ''int'' then (case sim_int v of None \<Rightarrow> Inl ValueError | Some n \<Rightarrow> Inr (VInt n))
      else if t = ''float'' then (case sim_float v of None \<Rightarrow> Inl ValueError | Some x \<Rightarrow> Inr (VFloat x))
      else Inr (VStr v))"

definition sim_ask :: "string \<Rightarrow> data_type \<Rightarrow> registers \<Rightarrow> (error + pyval) \<times> registers" where
  "sim_ask msg ty d =
     (case map_of d msg of
        None \<Rightarrow> (Inl (BackendError ''timeout''), d)
      | Some (VStr v) \<Rightarrow>
          (case ty of Single t \<Rightarrow> (sim_parse t v, d) | Multi ts \<Rightarrow> (Inl ValueError, d))
      | Some v \<Rightarrow> (Inr v, d))"

definition sim :: "registers backend" where
  "sim =
     \<lparr>b_open = (\<lambda>params d. (None, d)),
      b_write = sim_write,
      b_ask = sim_ask,
      b_wait_dev = (\<lambda>d. (None, d)),
      b_get_id = (\<lambda>timeout d. sim_ask ''*IDN?'' (Single ''string'') d),
      b_close = (\<lambda>d. d)\<rparr>"

definition fresh :: "'d \<Rightarrow> 'd conn" where
  "fresh d = \<lparr>sent = [], is_open = True, dev = d\<rparr>"

section \<open>Rules for running the transport primitives\<close>

lemma io_bind_lift [simp]:
  "io_bind (lift r) f c = (case r of Inl e \<Rightarrow> (Inl e, c) | Inr x \<Rightarrow> f x c)"
  by (simp add: io_bind_def lift_def split: sum.splits)

lemma io_bind_ret [simp]: "io_bind m ret c = m c"
  by (simp add: io_bind_def ret_def split: prod.splits sum.splits)

lemma io_bind_scpi_write:
  "io_bind (scpi_write B msg arg) f c =
     (case b_write B msg arg (dev c) of
        (None, d) \<Rightarrow> f () (c\<lparr>sent := sent c @ [CWrite msg arg], dev := d\<rparr>)
      | (Some e, d) \<Rightarrow> (Inl e, c\<lparr>sent := sent c @ [CWrite msg arg], dev := d\<rparr>))"
  by (simp add: io_bind_def scpi_write_def status_def split: prod.splits option.splits)

lemma io_bind_ask:
  "io_bind (ask B msg ty) f c =
     (case b_ask B msg ty (dev c) of
        (Inr v, d) \<Rightarrow> f v (c\<lparr>sent := sent c @ [CAsk msg ty], dev := d\<rparr>)
      | (Inl e, d) \<Rightarrow> (Inl e, c\<lparr>sent := sent c @ [CAsk msg ty], dev := d\<rparr>))"
  by (simp add: io_bind_def ask_def split: prod.splits sum.splits)

lemma io_bind_wait_dev:
  "io_bind (wait_dev B) f c =
     (case b_wait_dev B (dev c) of
        (None, d) \<Rightarrow> f () (c\<lparr>sent := sent c @ [CWaitDev], dev := d\<rparr>)
      | (Some e, d) \<Rightarrow> (Inl e, c\<lparr>sent := sent c @ [CWaitDev], dev := d\<rparr>))"
  by (simp add: io_bind_def wait_dev_def status_def split: prod.splits option.splits)

lemma sent_scpi_write [simp]:
  "sent (snd (scpi_write B msg arg c)) = sent c @ [CWrite msg arg]"
  by (simp add: scpi_write_def split: prod.splits)

lemma fst_scpi_write [simp]:
  "fst (scpi_write B msg arg c) = status (fst (b_write B msg arg (dev c)))"
  by (simp add: scpi_write_def split: prod.splits)

lemma sent_ask [simp]: "sent (snd (ask B msg ty c)) = sent c @ [CAsk msg ty]"
  by (simp add: ask_def split: prod.splits)

section \<open>Evaluating the formatters and the simulated instrument\<close>

lemma str_nat_digit: "n < 10 \<Longrightarrow> str_nat n = [digit_char n]"
  by (simp add: str_nat.simps)

lemma py_str_0: "py_str 0 = ''0''"
  by (simp add: py_str_def str_nat.simps digit_char_def)

lemma py_str_1: "py_str 1 = ''1''"
  by (simp add: py_str_def str_nat.simps digit_char_def)

lemma py_str_2: "py_str 2 = ''2''"
  by (simp add: py_str_def str_nat.simps digit_char_def)

lemma py_str_3: "py_str 3 = ''3''"
  by (simp add: py_str_def str_nat.simps digit_char_def)

lemma fmt_f_3_5: "fmt_f 3.5 = ''3.500000''"
proof -
  have r: "round_half_even 3500000 = 3500000"
    by (simp add: round_half_even_def)
  have a: "str_nat 3 = ''3''" and b: "str_nat 500000 = ''500000''"
    by (simp_all add: str_nat.simps digit_char_def)
  show ?thesis
    by (simp add: fmt_f_def r a b)
qed

lemma fst_sim_write: "fst (sim_write msg arg d) = None"
  by (simp add: sim_write_def split: pyval.splits list.splits)

lemma b_write_sim: "b_write sim = sim_write"
  by (simp add: sim_def)

lemma b_ask_sim: "b_ask sim = sim_ask"
  by (simp add: sim_def)

section \<open>Lakeshore 370: analog output\<close>

text \<open>
  C6.  \<^verbatim>\<open>set_analog_output(channel, value)\<close> first sends one \<^verbatim>\<open>ANALOG\<close> command: the
  form with mode 0 and value \<^verbatim>\<open>0.\<close> when \<open>value = 0\<close>, and the form with mode 2 carrying
  the value formatted by \<^verbatim>\<open>{:f}\<close> otherwise.  When the transport takes the command, the
  \<^verbatim>\<open>AOUT?\<close> query of the same channel follows, and nothing else is sent.
\<close>

theorem set_analog_output_command:
  "sent (snd (set_analog_output B channel val c)) =
     sent c @
     CWrite (if val = 0 then ''ANALOG '' @ py_str channel @ '',0,0,1,1,500.,0,0.''
             else ''ANALOG '' @ py_str channel @ '',0,2,1,1,500.,0,'' @ fmt_f val) VNone
     # (if fst (b_write B (if val = 0 then ''ANALOG '' @ py_str channel @ '',0,0,1,1,500.,0,0.''
                          else ''ANALOG '' @ py_str channel @ '',0,2,1,1,500.,0,'' @ fmt_f val)
                    VNone (dev c)) = None
        then [CAsk (''AOUT? '' @ py_str channel) (Single ''float'')] else [])"
  by (simp add: set_analog_output_def get_analog_output_370_def io_bind_scpi_write ask_def
      split: prod.splits option.splits)

text \<open>Channel 1 with value 3.5 and with value 0 on the simulated instrument.\<close>

theorem set_analog_output_command_witness:
  "sent (snd (set_analog_output sim 1 3.5 (fresh []))) =
     [CWrite ''ANALOG 1,0,2,1,1,500.,0,3.500000'' VNone, CAsk ''AOUT? 1'' (Single ''float'')]
   \<and> sent (snd (set_analog_output sim 1 0 (fresh []))) =
     [CWrite ''ANALOG 1,0,0,1,1,500.,0,0.'' VNone, CAsk ''AOUT? 1'' (Single ''float'')]"
  using set_analog_output_command [of sim 1 "3.5" "fresh []"]
    set_analog_output_command [of sim 1 0 "fresh []"]
  unfolding py_str_1 fmt_f_3_5 b_write_sim fst_sim_write
  by (simp add: fresh_def)

lemma py_in_str_IV:
  "py_in_str m ''IV'' \<longleftrightarrow> m = '''' \<or> m = ''I'' \<or> m = ''V'' \<or> m = ''IV''"
proof (cases m)
  case Nil
  then show ?thesis by simp
next
  case (Cons a m1)
  show ?thesis
  proof (cases m1)
    case Nil
    with Cons show ?thesis by auto
  next
    case (Cons b m2)
    with \<open>m = a # m1\<close> show ?thesis by (cases m2) auto
  qed
qed

section \<open>Lakeshore 370: channel setup\<close>

lemma fmt_2d_0: "fmt_2d 0 = '' 0''"
  by (simp add: fmt_2d_def py_str_0)

lemma fmt_2d_1: "fmt_2d 1 = '' 1''"
  by (simp add: fmt_2d_def py_str_1)

lemma fmt_2d_22: "fmt_2d 22 = ''22''"
  by (simp add: fmt_2d_def py_str_def str_nat.simps digit_char_def)

lemma setup_channel_valid:
  assumes "py_in_str mode ''IV''"
  shows "setup_channel B channel mode exc_range res_range autorange c =
     scpi_write B (''RDGRNG '' @ fmt_2d (case channel of None \<Rightarrow> 0 | Some ch \<Rightarrow> ch) @ '','' @
        py_str (if mode = ''V'' then 0 else 1) @ '','' @ fmt_2d exc_range @ '','' @
        fmt_2d res_range @ '','' @ py_str (if autorange then 1 else 0) @ '',0'') VNone c"
  using assms by (simp add: setup_channel_def check_parameter_range_def)

lemma setup_channel_invalid:
  assumes "\<not> py_in_str mode ''IV''"
  shows "setup_channel B channel mode exc_range res_range autorange c =
     (Inl (InvalidParameter ''mode''), c)"
  using assms by (simp add: setup_channel_def check_parameter_range_def)

text \<open>
  C10.  With the channel omitted, \<^verbatim>\<open>setup_channel\<close> behaves as for channel 0: for the modes
  \<^verbatim>\<open>"I"\<close> and \<^verbatim>\<open>"V"\<close> it sends the one command \<^verbatim>\<open>RDGRNG\<close> with the channel field
  \<^verbatim>\<open>" 0"\<close>, and its outcome is that of the write, not a parameter error.
\<close>

theorem setup_channel_omitted_channel:
  "setup_channel B None mode exc_range res_range autorange c =
     setup_channel B (Some 0) mode exc_range res_range autorange c
   \<and> (mode = ''I'' \<or> mode = ''V'' \<longrightarrow>
        sent (snd (setup_channel B None mode exc_range res_range autorange c)) =
          sent c @ [CWrite (''RDGRNG  0,'' @ (if mode = ''V'' then ''0'' else ''1'') @ '','' @
             fmt_2d exc_range @ '','' @ fmt_2d res_range @ '','' @
             (if autorange then ''1'' else ''0'') @ '',0'') VNone]
        \<and> fst (setup_channel B None mode exc_range res_range autorange c) =
          status (fst (b_write B (''RDGRNG  0,'' @ (if mode = ''V'' then ''0'' else ''1'') @ '','' @
             fmt_2d exc_range @ '','' @ fmt_2d res_range @ '','' @
             (if autorange then ''1'' else ''0'') @ '',0'') VNone (dev c))))"
proof -
  have same: "setup_channel B None mode exc_range res_range autorange c =
     setup_channel B (Some 0) mode exc_range res_range autorange c"
    by (simp add: setup_channel_def)
  have valid: "py_in_str mode ''IV''" if "mode = ''I'' \<or> mode = ''V''"
    using that py_in_str_IV [of mode] by blast
  show ?thesis
    using same valid
    by (auto simp: setup_channel_valid fmt_2d_0 py_str_0 py_str_1)
qed

text \<open>The defaults: mode \<^verbatim>\<open>"V"\<close>, ranges 1 and 22, autorange on.\<close>

theorem setup_channel_omitted_channel_witness:
  "sent (snd (setup_channel sim None ''V'' 1 22 True (fresh []))) =
     [CWrite ''RDGRNG  0,0, 1,22,1,0'' VNone]
   \<and> fst (setup_channel sim None ''V'' 1 22 True (fresh [])) = Inr ()"
  using setup_channel_omitted_channel [of sim "''V''" 1 22 True "fresh []", THEN conjunct2]
  unfolding fmt_2d_1 fmt_2d_22 b_write_sim fst_sim_write
  by (simp add: fresh_def status_def)

text \<open>
  C4.  The mode is checked by \<^verbatim>\<open>check_parameter_range(mode,"mode","IV")\<close>, which tests
  \<^verbatim>\<open>mode in "IV"\<close>.  The strings \<^verbatim>\<open>"IV"\<close> and \<^verbatim>\<open>""\<close> are neither \<^verbatim>\<open>"I"\<close> nor
  \<^verbatim>\<open>"V"\<close>, yet they pass the check, and \<^verbatim>\<open>RDGRNG\<close> is sent with mode 1.
\<close>

theorem setup_channel_accepts_IV:
  "setup_channel sim None ''IV'' 1 22 True (fresh []) =
     (Inr (), \<lparr>sent = [CWrite ''RDGRNG  0,1, 1,22,1,0'' VNone], is_open = True,
        dev = [(''RDGRNG  0,1, 1,22,1,0'', VNone)]\<rparr>)
   \<and> setup_channel sim None '''' 1 22 True (fresh []) =
     (Inr (), \<lparr>sent = [CWrite ''RDGRNG  0,1, 1,22,1,0'' VNone], is_open = True,
        dev = [(''RDGRNG  0,1, 1,22,1,0'', VNone)]\<rparr>)"
  by (simp add: setup_channel_valid py_in_str_IV fmt_2d_0 fmt_2d_1 fmt_2d_22 py_str_1
      scpi_write_def b_write_sim sim_write_def fresh_def status_def)

end
